theory Spec2Isabelle
  imports Main "HOL-Library.Word"
begin

unbundle bit_operations_syntax

section \<open>DS1307 real-time-clock driver (src/ds1307/ds1307.py)\<close>

text \<open>
  Python integers are unbounded and are modelled as \<open>int\<close>; on \<open>int\<close> the
  operations \<open>div\<close>, \<open>mod\<close>, \<open>AND\<close>, \<open>OR\<close>, \<open>NOT\<close>, \<open>push_bit\<close> and
  \<open>drop_bit\<close> agree with Python's \<open>//\<close>, \<open>%\<close>, \<open>&\<close>, \<open>|\<close>, \<open>~\<close>,
  \<open><<\<close> and \<open>>>\<close> (floor division, two's complement of unbounded width).
\<close>

subsection \<open>Module constants\<close>

definition DATETIME_REG :: int where
  "DATETIME_REG = 0"

definition CHIP_HALT :: int where
  "CHIP_HALT = 128"

definition CONTROL_REG :: int where
  "CONTROL_REG = 7"

definition RAM_REG :: int where
  "RAM_REG = 8"

subsection \<open>Errors\<close>

datatype error = ValueError string | IndexError

subsection \<open>BCD helpers\<close>

text \<open>\<^verbatim>\<open>return (value // 10) << 4 | (value % 10)\<close>\<close>

definition dec_to_bcd :: "int \<Rightarrow> int" where
  "dec_to_bcd v = push_bit 4 (v div 10) OR (v mod 10)"

text \<open>\<^verbatim>\<open>return ((value >> 4) * 10) + (value & 0x0F)\<close>\<close>

definition bcd_to_dec :: "int \<Rightarrow> int" where
  "bcd_to_dec v = (drop_bit 4 v) * 10 + (v AND 0x0F)"

subsection \<open>Python containers used by the driver\<close>

primrec bind_err :: "error + 'a \<Rightarrow> ('a \<Rightarrow> error + 'b) \<Rightarrow> error + 'b" where
  "bind_err (Inl e) f = Inl e"
| "bind_err (Inr x) f = f x"

text \<open>\<^verbatim>\<open>xs[i]\<close> on a list: a negative index counts from the end, an index out of
  range raises IndexError.\<close>

definition list_getitem :: "int list \<Rightarrow> int \<Rightarrow> error + int" where
  "list_getitem xs i =
     (if 0 \<le> i \<and> i < int (length xs) then Inr (xs ! nat i)
      else if - int (length xs) \<le> i \<and> i < 0 then Inr (xs ! nat (int (length xs) + i))
      else Inl IndexError)"

text \<open>\<^verbatim>\<open>range(a, b)\<close>: the integers from \<open>a\<close> up to \<open>b - 1\<close>, empty when \<open>b \<le> a\<close>.\<close>

definition py_range :: "int \<Rightarrow> int \<Rightarrow> int list" where
  "py_range a b = [a..b - 1]"

text \<open>\<^verbatim>\<open>bytearray(n)\<close> is \<open>n\<close> zero bytes. Storing into a bytearray (item assignment, or
  construction from a list) raises ValueError unless the value is in \<open>range(0, 256)\<close>,
  as in CPython, under which the test suite of the repository runs. The driver only
  stores at the indices 0 to 6 of a 7-byte buffer.\<close>

definition byte_error :: error where
  "byte_error = ValueError ''byte must be in range(0, 256)''"

definition bytearray :: "nat \<Rightarrow> int list" where
  "bytearray n = replicate n 0"

definition bytearray_setitem :: "int list \<Rightarrow> nat \<Rightarrow> int \<Rightarrow> error + int list" where
  "bytearray_setitem buf k v =
     (if length buf \<le> k then Inl IndexError
      else if 0 \<le> v \<and> v < 256 then Inr (buf[k := v])
      else Inl byte_error)"

definition bytearray_of :: "int list \<Rightarrow> error + int list" where
  "bytearray_of vs = (if \<forall>v \<in> set vs. 0 \<le> v \<and> v < 256 then Inr vs else Inl byte_error)"

text \<open>\<^verbatim>\<open>str(n)\<close> for a natural number, as \<^verbatim>\<open>"{}".format(n)\<close> prints it.\<close>

definition digit_char :: "nat \<Rightarrow> char" where
  "digit_char d = ''0123456789'' ! d"

fun str_nat :: "nat \<Rightarrow> string" where
  "str_nat n =
     (if n < 10 then [digit_char n]
      else str_nat (n div 10) @ [digit_char (n mod 10)])"

declare str_nat.simps [simp del]

subsection \<open>The register bus\<close>

text \<open>
  The bus object (\<^verbatim>\<open>machine.I2C\<close>) is outside the repository. It is modelled as the
  chip's register file, one 8-bit register per offset, together with the trace of the
  transactions issued so far. \<^verbatim>\<open>readfrom_mem(addr, memaddr, nbytes)\<close> returns
  \<open>nbytes\<close> register values as integers in \<open>0..255\<close>;
  \<^verbatim>\<open>writeto_mem(addr, memaddr, buf)\<close> stores the bytes of \<open>buf\<close> from \<open>memaddr\<close> on.
  Failing transactions are not modelled.
\<close>

datatype bus_op = ReadFromMem int int int | WriteToMem int int "int list"

record i2c =
  regs :: "int \<Rightarrow> 8 word"
  trace :: "bus_op list"

definition readfrom_mem :: "i2c \<Rightarrow> int \<Rightarrow> int \<Rightarrow> int \<Rightarrow> int list \<times> i2c" where
  "readfrom_mem bus a memaddr nbytes =
     (map (\<lambda>k. uint (regs bus (memaddr + int k))) [0..<nat nbytes],
      bus\<lparr>trace := trace bus @ [ReadFromMem a memaddr nbytes]\<rparr>)"

definition writeto_mem :: "i2c \<Rightarrow> int \<Rightarrow> int \<Rightarrow> int list \<Rightarrow> i2c" where
  "writeto_mem bus a memaddr buf =
     bus\<lparr>regs := (\<lambda>r. if memaddr \<le> r \<and> r < memaddr + int (length buf)
                       then word_of_int (buf ! nat (r - memaddr)) else regs bus r),
         trace := trace bus @ [WriteToMem a memaddr buf]\<rparr>"

subsection \<open>The driver object\<close>

text \<open>The fields \<^verbatim>\<open>_addr\<close>, \<^verbatim>\<open>_i2c\<close>, \<^verbatim>\<open>_weekday_start\<close> and \<^verbatim>\<open>_halt\<close>. A method
  returns its outcome (\<open>Inl\<close> the exception raised) together with the object as the call
  leaves it.\<close>

record ds1307 =
  self_addr :: int
  self_i2c :: i2c
  self_weekday_start :: int
  self_halt :: bool

type_synonym datetime_tuple = "int \<times> int \<times> int \<times> int \<times> int \<times> int \<times> int \<times> int"

text \<open>\<^verbatim>\<open>__init__(self, addr=0x68, i2c=None)\<close>; \<open>I2C\<close> is the bus constructor of the
  platform, called as \<^verbatim>\<open>I2C(0)\<close> when no bus is given.\<close>

definition init :: "(int \<Rightarrow> i2c) \<Rightarrow> int \<Rightarrow> i2c option \<Rightarrow> ds1307" where
  "init I2C a i2c =
     \<lparr>self_addr = a,
      self_i2c = (case i2c of None \<Rightarrow> I2C 0 | Some bus \<Rightarrow> bus),
      self_weekday_start = 0,
      self_halt = False\<rparr>"

definition addr :: "ds1307 \<Rightarrow> int \<times> ds1307" where
  "addr self = (self_addr self, self)"

definition weekday_start :: "ds1307 \<Rightarrow> int \<times> ds1307" where
  "weekday_start self = (self_weekday_start self, self)"

definition weekday_start_setter :: "ds1307 \<Rightarrow> int \<Rightarrow> (error + unit) \<times> ds1307" where
  "weekday_start_setter self v =
     (if 0 \<le> v \<and> v \<le> 6 then (Inr (), self\<lparr>self_weekday_start := v\<rparr>)
      else (Inl (ValueError ''Weekday can only be in range 0-6''), self))"

subsection \<open>Calendar helpers\<close>

definition is_leap_year :: "int \<Rightarrow> bool" where
  "is_leap_year year = (year mod 4 = 0)"

definition month_days :: "int list" where
  "month_days = [31, 28, 31, 30, 31, 30, 31, 31, 30, 31, 30, 31]"

text \<open>The loop \<^verbatim>\<open>for x in range(1, month): days16 += month_days[x - 1]\<close>.\<close>

fun day_of_year_loop :: "int list \<Rightarrow> int \<Rightarrow> error + int" where
  "day_of_year_loop [] days16 = Inr days16"
| "day_of_year_loop (x # xs) days16 =
     bind_err (list_getitem month_days (x - 1)) (\<lambda>d. day_of_year_loop xs (days16 + d))"

definition day_of_year :: "int \<Rightarrow> int \<Rightarrow> int \<Rightarrow> error + int" where
  "day_of_year year month day =
     (let year' = year - 2000
      in bind_err (day_of_year_loop (py_range 1 month) day) (\<lambda>days16.
           if month \<ge> 2 \<and> is_leap_year year' then Inr (days16 + 1) else Inr days16))"

subsection \<open>Reading and writing the date and time\<close>

text \<open>The getter of \<^verbatim>\<open>datetime\<close>: one 7-byte read at \<open>DATETIME_REG\<close>, then the
  fields are decoded. \<^verbatim>\<open>day_of_year\<close> is called before the tuple is built, so its
  exception leaves the method.\<close>

definition datetime :: "ds1307 \<Rightarrow> (error + datetime_tuple) \<times> ds1307" where
  "datetime self =
     (let (buf, bus) = readfrom_mem (self_i2c self) (self_addr self) DATETIME_REG 7;
          self' = self\<lparr>self_i2c := bus\<rparr>;
          year = bcd_to_dec (buf ! 6) + 2000;
          month = bcd_to_dec (buf ! 5);
          day = bcd_to_dec (buf ! 4)
      in (bind_err (day_of_year year month day) (\<lambda>yearday.
            Inr (year,
                 month,
                 day,
                 bcd_to_dec (buf ! 2),
                 bcd_to_dec (buf ! 1),
                 bcd_to_dec ((buf ! 0) AND 0x7F),
                 bcd_to_dec (buf ! 3 - self_weekday_start self),
                 yearday)),
          self'))"

text \<open>The buffer the setter of \<^verbatim>\<open>datetime\<close> fills, statement by statement, before it
  is written to the bus.\<close>

definition datetime_setter_buf :: "ds1307 \<Rightarrow> datetime_tuple \<Rightarrow> error + int list" where
  "datetime_setter_buf self dt =
     (case dt of (year, month, day, hour, minute, second, wday, yday) \<Rightarrow>
        bind_err (bytearray_setitem (bytearray 7) 0 (dec_to_bcd second AND 0x7F)) (\<lambda>buf.
        bind_err (bytearray_setitem buf 1 (dec_to_bcd minute)) (\<lambda>buf.
        bind_err (bytearray_setitem buf 2 (dec_to_bcd hour)) (\<lambda>buf.
        bind_err (bytearray_setitem buf 3 (dec_to_bcd (wday + self_weekday_start self))) (\<lambda>buf.
        bind_err (bytearray_setitem buf 4 (dec_to_bcd day)) (\<lambda>buf.
        bind_err (bytearray_setitem buf 5 (dec_to_bcd month)) (\<lambda>buf.
        bind_err (bytearray_setitem buf 6 (dec_to_bcd (year - 2000))) (\<lambda>buf.
        if self_halt self then bytearray_setitem buf 0 (buf ! 0 OR push_bit 7 1)
        else Inr buf))))))))"

definition datetime_setter :: "ds1307 \<Rightarrow> datetime_tuple \<Rightarrow> (error + unit) \<times> ds1307" where
  "datetime_setter self dt =
     (case datetime_setter_buf self dt of
        Inl e \<Rightarrow> (Inl e, self)
      | Inr buf \<Rightarrow>
          (Inr (),
           self\<lparr>self_i2c := writeto_mem (self_i2c self) (self_addr self) DATETIME_REG buf\<rparr>))"

subsection \<open>Read-only projections\<close>

text \<open>\<^verbatim>\<open>self.datetime[k]\<close>: the getter is run and item \<open>k\<close> of its tuple returned.\<close>

fun tuple_getitem :: "datetime_tuple \<Rightarrow> nat \<Rightarrow> int" where
  "tuple_getitem (year, month, day, hour, minute, second, wday, yday) k =
     [year, month, day, hour, minute, second, wday, yday] ! k"

definition datetime_item :: "ds1307 \<Rightarrow> nat \<Rightarrow> (error + int) \<times> ds1307" where
  "datetime_item self k =
     (case datetime self of (r, self') \<Rightarrow> (bind_err r (\<lambda>t. Inr (tuple_getitem t k)), self'))"

definition year :: "ds1307 \<Rightarrow> (error + int) \<times> ds1307" where
  "year self = datetime_item self 0"

definition month :: "ds1307 \<Rightarrow> (error + int) \<times> ds1307" where
  "month self = datetime_item self 1"

definition day :: "ds1307 \<Rightarrow> (error + int) \<times> ds1307" where
  "day self = datetime_item self 2"

definition hour :: "ds1307 \<Rightarrow> (error + int) \<times> ds1307" where
  "hour self = datetime_item self 3"

definition minute :: "ds1307 \<Rightarrow> (error + int) \<times> ds1307" where
  "minute self = datetime_item self 4"

definition second :: "ds1307 \<Rightarrow> (error + int) \<times> ds1307" where
  "second self = datetime_item self 5"

text \<open>\<^verbatim>\<open>return self.datetime[5]\<close>\<close>

definition weekday :: "ds1307 \<Rightarrow> (error + int) \<times> ds1307" where
  "weekday self = datetime_item self 5"

definition yearday :: "ds1307 \<Rightarrow> (error + int) \<times> ds1307" where
  "yearday self = datetime_item self 7"

subsection \<open>Oscillator halt\<close>

text \<open>\<^verbatim>\<open>return self._halt\<close>\<close>

definition halt :: "ds1307 \<Rightarrow> bool \<times> ds1307" where
  "halt self = (self_halt self, self)"

text \<open>The setter of \<^verbatim>\<open>halt\<close>: a 1-byte read, \<^verbatim>\<open>reg |= CHIP_HALT\<close> or
  \<^verbatim>\<open>reg &= ~CHIP_HALT\<close>, the flag cached, then a 1-byte write.\<close>

definition halt_setter :: "ds1307 \<Rightarrow> bool \<Rightarrow> (error + unit) \<times> ds1307" where
  "halt_setter self v =
     (let (data, bus) = readfrom_mem (self_i2c self) (self_addr self) DATETIME_REG 1;
          reg = data ! 0;
          reg' = (if v then reg OR CHIP_HALT else reg AND NOT CHIP_HALT);
          self' = self\<lparr>self_i2c := bus, self_halt := v\<rparr>
      in case bytearray_of [reg'] of
           Inl e \<Rightarrow> (Inl e, self')
         | Inr buf \<Rightarrow>
             (Inr (), self'\<lparr>self_i2c := writeto_mem bus (self_addr self) DATETIME_REG buf\<rparr>))"

subsection \<open>Square-wave output\<close>

text \<open>\<^verbatim>\<open>"Squarewave can be set to 0Hz, 1Hz, {}Hz, {}Hz or {}Hz".format(2 ** 12, 2 ** 13, 2 ** 15)\<close>\<close>

definition square_wave_message :: string where
  "square_wave_message =
     ''Squarewave can be set to 0Hz, 1Hz, '' @ str_nat (2 ^ 12) @ ''Hz, '' @
     str_nat (2 ^ 13) @ ''Hz or '' @ str_nat (2 ^ 15) @ ''Hz''"

definition square_wave :: "ds1307 \<Rightarrow> int \<Rightarrow> int \<Rightarrow> (error + unit) \<times> ds1307" where
  "square_wave self sqw out =
     (if sqw \<notin> set [0, 1, 4, 8, 32] then (Inl (ValueError square_wave_message), self)
      else
        let rs0 = (if sqw = 4 \<or> sqw = 32 then 1 else 0 :: int);
            rs1 = (if sqw = 8 \<or> sqw = 32 then 1 else 0 :: int);
            out' = (if out > 0 then 1 else 0 :: int);
            sqw' = (if sqw > 0 then 1 else 0 :: int);
            reg = rs0 OR push_bit 1 rs1 OR push_bit 4 sqw' OR push_bit 7 out'
        in case bytearray_of [reg] of
             Inl e \<Rightarrow> (Inl e, self)
           | Inr buf \<Rightarrow>
               (Inr (),
                self\<lparr>self_i2c := writeto_mem (self_i2c self) (self_addr self) CONTROL_REG buf\<rparr>))"

subsection \<open>A chip with given register contents\<close>

text \<open>As the test suite's mocked bus does: a chip whose registers from offset 0 on hold
  the given bytes, with no transaction issued yet, and a driver on it at address
  \<open>0x68\<close>.\<close>

definition mock_i2c :: "int list \<Rightarrow> i2c" where
  "mock_i2c bs =
     \<lparr>regs = (\<lambda>r. if 0 \<le> r \<and> r < int (length bs) then word_of_int (bs ! nat r) else 0),
      trace = []\<rparr>"

definition mock_ds1307 :: "int list \<Rightarrow> int \<Rightarrow> bool \<Rightarrow> ds1307" where
  "mock_ds1307 bs ws h =
     \<lparr>self_addr = 0x68, self_i2c = mock_i2c bs, self_weekday_start = ws, self_halt = h\<rparr>"

section \<open>Arithmetic reading of the bit operations\<close>

lemma and_0x0F_eq_mod: "(v::int) AND 0x0F = v mod 16"
proof -
  have "v AND mask 4 = take_bit 4 v"
    by (simp only: take_bit_eq_mask)
  then show ?thesis
    by (simp add: take_bit_eq_mod mask_eq_exp_minus_1)
qed

lemma bcd_to_dec_arith: "bcd_to_dec v = (v div 16) * 10 + v mod 16"
  by (simp add: bcd_to_dec_def and_0x0F_eq_mod drop_bit_eq_div)

lemma or_low_nibble:
  assumes "0 \<le> b" and "b < 16"
  shows "push_bit 4 (a::int) OR b = a * 16 + b"
proof -
  have b: "take_bit 4 b = b"
    using assms by (simp add: take_bit_int_eq_self)
  have "push_bit 4 a AND take_bit 4 b = 0"
    by (rule bit_eqI) (auto simp add: bit_and_iff bit_push_bit_iff bit_take_bit_iff)
  then have "push_bit 4 a + b = push_bit 4 a OR b"
    using b by (simp add: disjunctive_add_eq_or)
  then show ?thesis
    by (simp add: push_bit_eq_mult)
qed

lemma dec_to_bcd_arith: "dec_to_bcd v = (v div 10) * 16 + v mod 10"
  unfolding dec_to_bcd_def by (rule or_low_nibble) simp_all

lemma bcd_to_dec_dec_to_bcd:
  assumes "0 \<le> v" and "v \<le> 99"
  shows "bcd_to_dec (dec_to_bcd v) = v"
proof -
  have "0 \<le> v div 10" "v div 10 < 10" "0 \<le> v mod 10" "v mod 10 < 10"
    using assms by simp_all
  then show ?thesis
    by (simp add: bcd_to_dec_arith dec_to_bcd_arith)
qed

lemma dec_to_bcd_bcd_to_dec:
  assumes "0 \<le> b" and "drop_bit 4 b \<le> 9" and "b AND 0x0F \<le> 9"
  shows "dec_to_bcd (bcd_to_dec b) = b"
proof -
  have "b div 16 \<le> 9" "b mod 16 \<le> 9" "0 \<le> b div 16" "0 \<le> b mod 16"
    using assms by (simp_all add: and_0x0F_eq_mod drop_bit_eq_div)
  then show ?thesis
    by (simp add: bcd_to_dec_arith dec_to_bcd_arith)
qed

section \<open>Calendar arithmetic\<close>

lemma month_cases:
  assumes "1 \<le> m" and "m \<le> 12"
  shows "m = 1 \<or> m = 2 \<or> m = 3 \<or> m = 4 \<or> m = 5 \<or> m = 6 \<or>
         m = 7 \<or> m = 8 \<or> m = 9 \<or> m = 10 \<or> m = 11 \<or> (m::int) = 12"
  using assms by arith

lemma is_leap_year_offset: "is_leap_year (y - 2000) = (y mod 4 = 0)"
  unfolding is_leap_year_def by presburger

lemma day_of_year_loop_months:
  "day_of_year_loop (py_range 1 1) d = Inr d"
  "day_of_year_loop (py_range 1 2) d = Inr (d + 31)"
  "day_of_year_loop (py_range 1 3) d = Inr (d + 59)"
  "day_of_year_loop (py_range 1 4) d = Inr (d + 90)"
  "day_of_year_loop (py_range 1 5) d = Inr (d + 120)"
  "day_of_year_loop (py_range 1 6) d = Inr (d + 151)"
  "day_of_year_loop (py_range 1 7) d = Inr (d + 181)"
  "day_of_year_loop (py_range 1 8) d = Inr (d + 212)"
  "day_of_year_loop (py_range 1 9) d = Inr (d + 243)"
  "day_of_year_loop (py_range 1 10) d = Inr (d + 273)"
  "day_of_year_loop (py_range 1 11) d = Inr (d + 304)"
  "day_of_year_loop (py_range 1 12) d = Inr (d + 334)"
  by (simp_all add: py_range_def upto.simps list_getitem_def month_days_def)

lemma day_of_year_valid_month:
  assumes "1 \<le> m" and "m \<le> 12"
  shows "day_of_year y m d =
         Inr (sum_list (take (nat (m - 1)) [31, 28, 31, 30, 31, 30, 31, 31, 30, 31, 30, 31])
              + d + (if m \<ge> 2 \<and> y mod 4 = 0 then 1 else 0))"
  using month_cases [OF assms]
  by (elim disjE) (simp_all add: day_of_year_def day_of_year_loop_months is_leap_year_offset)

section \<open>The BCD helpers\<close>

text \<open>
  Claim C2. The BCD helpers are mutually inverse on their valid domains: for every
  integer \<open>v\<close> from 0 to 99, decoding the encoding of \<open>v\<close> gives \<open>v\<close> back; for every
  byte \<open>b\<close> (0 to 255) whose high nibble and low nibble are both at most 9, encoding the
  decoding of \<open>b\<close> gives \<open>b\<close> back.
\<close>

theorem bcd_helpers_inverse:
  "(0 \<le> v \<and> v \<le> 99 \<longrightarrow> bcd_to_dec (dec_to_bcd v) = v) \<and>
   (0 \<le> b \<and> b \<le> 255 \<and> drop_bit 4 b \<le> 9 \<and> b AND 0x0F \<le> 9 \<longrightarrow>
      dec_to_bcd (bcd_to_dec b) = b)"
  by (simp add: bcd_to_dec_dec_to_bcd dec_to_bcd_bcd_to_dec)

theorem bcd_helpers_inverse_witness:
  "((0::int) \<le> 59 \<and> (59::int) \<le> 99 \<and> bcd_to_dec (dec_to_bcd 59) = 59) \<and>
   ((0::int) \<le> 0x59 \<and> (0x59::int) \<le> 255 \<and> drop_bit 4 (0x59::int) \<le> 9 \<and>
      (0x59::int) AND 0x0F \<le> 9 \<and> dec_to_bcd (bcd_to_dec 0x59) = 0x59)"
  using bcd_helpers_inverse [of 59 "0x59"]
  by (simp add: drop_bit_eq_div and_0x0F_eq_mod)

section \<open>Day of the year\<close>

text \<open>
  Claim C7. For every year, every month from 1 to 12 and every day, \<open>day_of_year\<close>
  returns the sum of the standard month lengths (31, 28, 31, 30, 31, 30, 31, 31, 30, 31,
  30, 31) of the months strictly before the month, plus the day, plus 1 if the month is
  at least 2 and the year is divisible by 4; in particular it returns 149 for
  2023-05-29 and 86 for 2024-03-26.
\<close>

theorem day_of_year_spec:
  "(1 \<le> m \<and> m \<le> 12 \<longrightarrow>
      day_of_year y m d =
        Inr (sum_list (take (nat (m - 1)) [31, 28, 31, 30, 31, 30, 31, 31, 30, 31, 30, 31])
             + d + (if m \<ge> 2 \<and> y mod 4 = 0 then 1 else 0))) \<and>
   day_of_year 2023 5 29 = Inr 149 \<and>
   day_of_year 2024 3 26 = Inr 86"
  by (simp add: day_of_year_valid_month)

theorem day_of_year_spec_witness:
  "(1::int) \<le> 2 \<and> (2::int) \<le> 12 \<and> day_of_year 2024 2 10 = Inr (31 + 10 + 1)"
  using day_of_year_spec [of 2 2024 10] by simp

section \<open>Bus transactions of the accessors\<close>

lemma length_readfrom_mem: "length (fst (readfrom_mem bus a m n)) = nat n"
  by (simp add: readfrom_mem_def)

lemma upt_0_7: "[0..<7] = [0, 1, 2, 3, 4, 5, 6]"
  by code_simp

lemma readfrom_mem_7:
  "readfrom_mem bus a m 7 =
     ([uint (regs bus m), uint (regs bus (m + 1)), uint (regs bus (m + 2)),
       uint (regs bus (m + 3)), uint (regs bus (m + 4)), uint (regs bus (m + 5)),
       uint (regs bus (m + 6))],
      bus\<lparr>trace := trace bus @ [ReadFromMem a m 7]\<rparr>)"
  by (simp add: readfrom_mem_def upt_0_7)

lemma readfrom_mem_1:
  "readfrom_mem bus a m 1 =
     ([uint (regs bus m)], bus\<lparr>trace := trace bus @ [ReadFromMem a m 1]\<rparr>)"
  by (simp add: readfrom_mem_def)

lemma datetime_regs:
  "datetime self =
     (bind_err
        (day_of_year (bcd_to_dec (uint (regs (self_i2c self) 6)) + 2000)
           (bcd_to_dec (uint (regs (self_i2c self) 5)))
           (bcd_to_dec (uint (regs (self_i2c self) 4))))
        (\<lambda>yearday.
           Inr (bcd_to_dec (uint (regs (self_i2c self) 6)) + 2000,
                bcd_to_dec (uint (regs (self_i2c self) 5)),
                bcd_to_dec (uint (regs (self_i2c self) 4)),
                bcd_to_dec (uint (regs (self_i2c self) 2)),
                bcd_to_dec (uint (regs (self_i2c self) 1)),
                bcd_to_dec (uint (regs (self_i2c self) 0) AND 0x7F),
                bcd_to_dec (uint (regs (self_i2c self) 3) - self_weekday_start self),
                yearday)),
      self\<lparr>self_i2c := (self_i2c self)
             \<lparr>trace := trace (self_i2c self) @ [ReadFromMem (self_addr self) 0 7]\<rparr>\<rparr>)"
  by (simp add: datetime_def readfrom_mem_7 DATETIME_REG_def Let_def)

lemma datetime_keeps_flags:
  "self_halt (snd (datetime self)) = self_halt self"
  "self_weekday_start (snd (datetime self)) = self_weekday_start self"
  by (simp_all add: datetime_def readfrom_mem_def Let_def)

lemma datetime_setter_keeps_flags:
  "self_halt (snd (datetime_setter self dt)) = self_halt self"
  "self_weekday_start (snd (datetime_setter self dt)) = self_weekday_start self"
  by (simp_all add: datetime_setter_def split: sum.split)

lemma regs_mock_7:
  "regs (self_i2c (mock_ds1307 [b0, b1, b2, b3, b4, b5, b6] ws h)) 0 = word_of_int b0"
  "regs (self_i2c (mock_ds1307 [b0, b1, b2, b3, b4, b5, b6] ws h)) 1 = word_of_int b1"
  "regs (self_i2c (mock_ds1307 [b0, b1, b2, b3, b4, b5, b6] ws h)) 2 = word_of_int b2"
  "regs (self_i2c (mock_ds1307 [b0, b1, b2, b3, b4, b5, b6] ws h)) 3 = word_of_int b3"
  "regs (self_i2c (mock_ds1307 [b0, b1, b2, b3, b4, b5, b6] ws h)) 4 = word_of_int b4"
  "regs (self_i2c (mock_ds1307 [b0, b1, b2, b3, b4, b5, b6] ws h)) 5 = word_of_int b5"
  "regs (self_i2c (mock_ds1307 [b0, b1, b2, b3, b4, b5, b6] ws h)) 6 = word_of_int b6"
  by (simp_all add: mock_ds1307_def mock_i2c_def)

lemma mock_ds1307_fields:
  "self_addr (mock_ds1307 bs ws h) = 0x68"
  "self_weekday_start (mock_ds1307 bs ws h) = ws"
  "self_halt (mock_ds1307 bs ws h) = h"
  "trace (self_i2c (mock_ds1307 bs ws h)) = []"
  by (simp_all add: mock_ds1307_def mock_i2c_def)

lemma uint_byte: "0 \<le> uint (w :: 8 word)" "uint (w :: 8 word) < 256"
  using uint_bounded [of w] by simp_all

section \<open>The halt bit\<close>

lemma bit_128_iff: "bit (128::int) n \<longleftrightarrow> n = 7"
proof -
  have "(128::int) = 2 ^ 7"
    by simp
  then show ?thesis
    by (simp only: bit_exp_iff) auto
qed

lemma set_halt_bit:
  assumes "0 \<le> r" and "r < 256"
  shows "0 \<le> r OR 128" and "r OR 128 < 256" and "bit (r OR (128::int)) 7"
    and "take_bit 7 (r OR 128) = take_bit 7 r"
proof -
  show "0 \<le> r OR 128"
    using assms by simp
  have "r OR 128 < 2 ^ 8"
    using assms by (intro OR_upper) simp_all
  then show "r OR 128 < 256"
    by simp
  show "bit (r OR (128::int)) 7"
    by (simp add: bit_or_iff bit_128_iff)
  show "take_bit 7 (r OR 128) = take_bit 7 r"
    by (rule bit_eqI) (auto simp add: bit_take_bit_iff bit_or_iff bit_128_iff)
qed

lemma clear_halt_bit:
  assumes "0 \<le> r" and "r < 256"
  shows "0 \<le> r AND NOT 128" and "r AND NOT 128 < 256" and "\<not> bit (r AND NOT (128::int)) 7"
    and "take_bit 7 (r AND NOT 128) = take_bit 7 r"
proof -
  show "0 \<le> r AND NOT 128"
    using assms by simp
  have "r AND NOT 128 \<le> r"
    using assms by (intro AND_upper1) simp
  then show "r AND NOT 128 < 256"
    using assms by simp
  show "\<not> bit (r AND NOT (128::int)) 7"
    by (simp add: bit_and_iff bit_not_iff bit_128_iff)
  show "take_bit 7 (r AND NOT 128) = take_bit 7 r"
    by (rule bit_eqI) (simp only: bit_take_bit_iff bit_and_iff bit_not_iff bit_128_iff, auto)
qed

lemma halt_setter_regs:
  "halt_setter self v =
     (Inr (),
      self\<lparr>self_i2c :=
             writeto_mem
               ((self_i2c self)\<lparr>trace := trace (self_i2c self) @ [ReadFromMem (self_addr self) 0 1]\<rparr>)
               (self_addr self) 0
               [if v then uint (regs (self_i2c self) 0) OR 128
                else uint (regs (self_i2c self) 0) AND NOT 128],
           self_halt := v\<rparr>)"
  using set_halt_bit(1,2) [OF uint_byte, of "regs (self_i2c self) 0"]
    clear_halt_bit(1,2) [OF uint_byte, of "regs (self_i2c self) 0"]
  by (simp add: halt_setter_def readfrom_mem_1 DATETIME_REG_def CHIP_HALT_def bytearray_of_def
      Let_def)

text \<open>
  Claim C8. Setting the halt flag reads exactly one byte at register offset 0, sets bit 7
  of it when the requested value is true and clears it when false (the low seven bits are
  kept), writes that one byte back at offset 0, and caches the requested boolean, which
  the halt getter then returns; with a read-back byte of \<open>0x59\<close> the byte written is
  \<open>0xD9\<close> for true and \<open>0x59\<close> for false.
\<close>

theorem halt_setter_spec:
  "\<exists>w. fst (halt_setter self v) = Inr () \<and>
        trace (self_i2c (snd (halt_setter self v))) =
          trace (self_i2c self) @
            [ReadFromMem (self_addr self) 0 1, WriteToMem (self_addr self) 0 [w]] \<and>
        0 \<le> w \<and> w < 256 \<and>
        bit w 7 = v \<and>
        take_bit 7 w = take_bit 7 (uint (regs (self_i2c self) 0)) \<and>
        (regs (self_i2c self) 0 = 0x59 \<longrightarrow> w = (if v then 0xD9 else 0x59)) \<and>
        halt (snd (halt_setter self v)) = (v, snd (halt_setter self v))"
proof (cases v)
  case True
  show ?thesis
    using set_halt_bit [OF uint_byte, of "regs (self_i2c self) 0"] True
    by (intro exI [of _ "uint (regs (self_i2c self) 0) OR 128"])
      (auto simp add: halt_setter_regs writeto_mem_def halt_def)
next
  case False
  show ?thesis
    using clear_halt_bit [OF uint_byte, of "regs (self_i2c self) 0"] False
    by (intro exI [of _ "uint (regs (self_i2c self) 0) AND NOT 128"])
      (auto simp add: halt_setter_regs writeto_mem_def halt_def)
qed

theorem halt_setter_spec_witness:
  "regs (self_i2c (mock_ds1307 [0x59] 0 False)) 0 = 0x59 \<and>
   trace (self_i2c (snd (halt_setter (mock_ds1307 [0x59] 0 False) True))) =
     [ReadFromMem 0x68 0 1, WriteToMem 0x68 0 [0xD9]] \<and>
   halt (snd (halt_setter (mock_ds1307 [0x59] 0 False) True)) =
     (True, snd (halt_setter (mock_ds1307 [0x59] 0 False) True))"
proof -
  have r: "regs (self_i2c (mock_ds1307 [0x59] 0 False)) 0 = 0x59"
    by (simp add: mock_ds1307_def mock_i2c_def)
  from halt_setter_spec [of "mock_ds1307 [0x59] 0 False" True] r show ?thesis
    by (auto simp add: mock_ds1307_fields)
qed

section \<open>Rejected arguments\<close>

lemma square_wave_message_text:
  "square_wave_message = ''Squarewave can be set to 0Hz, 1Hz, 4096Hz, 8192Hz or 32768Hz''"
  by (simp add: square_wave_message_def str_nat.simps digit_char_def)

text \<open>
  Claim C9. A weekday start outside 0..6 makes its setter raise the ValueError
  "Weekday can only be in range 0-6", and a square-wave rate outside {0, 1, 4, 8, 32}
  makes \<open>square_wave\<close> raise the ValueError naming 0Hz, 1Hz, 4096Hz, 8192Hz and
  32768Hz; in both cases the driver is left exactly as it was: the configured weekday
  start keeps its value and the bus trace gains no transaction.
\<close>

theorem invalid_argument_rejected:
  "(v < 0 \<or> 6 < v \<longrightarrow>
      weekday_start_setter self v = (Inl (ValueError ''Weekday can only be in range 0-6''), self)) \<and>
   (sqw \<notin> {0, 1, 4, 8, 32} \<longrightarrow>
      square_wave self sqw out =
        (Inl (ValueError ''Squarewave can be set to 0Hz, 1Hz, 4096Hz, 8192Hz or 32768Hz''), self))"
  by (auto simp add: weekday_start_setter_def square_wave_def square_wave_message_text)

theorem invalid_argument_rejected_witness:
  "((7::int) < 0 \<or> (6::int) < 7) \<and>
   weekday_start_setter (mock_ds1307 [] 3 False) 7 =
     (Inl (ValueError ''Weekday can only be in range 0-6''), mock_ds1307 [] 3 False) \<and>
   fst (weekday_start (snd (weekday_start_setter (mock_ds1307 [] 3 False) 7))) = 3 \<and>
   (2::int) \<notin> {0, 1, 4, 8, 32} \<and>
   square_wave (mock_ds1307 [] 3 False) 2 0 =
     (Inl (ValueError ''Squarewave can be set to 0Hz, 1Hz, 4096Hz, 8192Hz or 32768Hz''),
      mock_ds1307 [] 3 False) \<and>
   trace (self_i2c (snd (square_wave (mock_ds1307 [] 3 False) 2 0))) = []"
  using invalid_argument_rejected [of 7 "mock_ds1307 [] 3 False" 2 0]
  by (simp add: weekday_start_def mock_ds1307_def mock_i2c_def)

section \<open>The weekday\<close>

text \<open>The projections other than \<open>weekday\<close> return their own component of the tuple.\<close>

lemma projections_of_datetime:
  assumes "fst (datetime self) = Inr (y, mo, d, h, mi, s, wd, yd)"
  shows "fst (year self) = Inr y" and "fst (month self) = Inr mo" and "fst (day self) = Inr d"
    and "fst (hour self) = Inr h" and "fst (minute self) = Inr mi"
    and "fst (second self) = Inr s" and "fst (yearday self) = Inr yd"
  using assms
  by (auto simp add: year_def month_def day_def hour_def minute_def second_def yearday_def
      datetime_item_def split: prod.splits)

text \<open>
  Claim C5. Each read-only projection should return its own component of the decoded
  tuple, the weekday projection item 6. The code of \<open>weekday\<close> returns item 5, the
  second: on the registers \<open>[89, 69, 32, 3, 41, 5, 35]\<close>, which decode to
  (2023, 5, 29, 20, 45, 59, 3, 149), the weekday projection returns 59 and not 3.
\<close>

theorem weekday_projection_seconds:
  "fst (datetime (mock_ds1307 [89, 69, 32, 3, 41, 5, 35] 0 False)) =
     Inr (2023, 5, 29, 20, 45, 59, 3, 149) \<and>
   fst (weekday (mock_ds1307 [89, 69, 32, 3, 41, 5, 35] 0 False)) = Inr 59"
  by (simp add: weekday_def datetime_item_def datetime_regs regs_mock_7 mock_ds1307_fields
      bcd_to_dec_arith day_of_year_valid_month)

text \<open>
  Claim C3. The weekday of the getter should be the decoded weekday register minus the
  configured weekday start. The code subtracts the start from the raw register before
  decoding: with the weekday register at 1 and a weekday start of 2 the getter returns
  weekday 5, whereas decoding first and subtracting then gives \<open>-1\<close>.
\<close>

theorem weekday_offset_before_decode:
  "fst (datetime (mock_ds1307 [89, 69, 32, 1, 41, 5, 35] 2 False)) =
     Inr (2023, 5, 29, 20, 45, 59, 5, 149) \<and>
   bcd_to_dec 1 - 2 = - 1"
  by (simp add: datetime_regs regs_mock_7 mock_ds1307_fields
      bcd_to_dec_arith day_of_year_valid_month)

section \<open>The square-wave control byte\<close>

lemma square_wave_ok:
  assumes "sqw \<in> {0, 1, 4, 8, 32}"
  shows "square_wave self sqw out =
     (Inr (),
      self\<lparr>self_i2c := writeto_mem (self_i2c self) (self_addr self) 7
         [(if sqw = 4 \<or> sqw = 32 then 1 else 0) + (if sqw = 8 \<or> sqw = 32 then 2 else 0) +
          (if sqw \<noteq> 0 then 16 else 0) + (if out > 0 then 128 else 0)]\<rparr>)"
  using assms by (auto simp add: square_wave_def bytearray_of_def CONTROL_REG_def Let_def)

text \<open>
  Claim C4, as stated, fails at rate 0 with output level 0: the control byte written is
  \<open>0x00\<close>, not \<open>0x80\<close>.
\<close>

theorem square_wave_disabled_low_counterexample:
  "trace (self_i2c (snd (square_wave (mock_ds1307 [] 0 False) 0 0))) =
     [WriteToMem 0x68 7 [0x00]] \<and>
   trace (self_i2c (snd (square_wave (mock_ds1307 [] 0 False) 0 0))) \<noteq>
     [WriteToMem 0x68 7 [0x80]]"
  by (simp add: square_wave_ok writeto_mem_def mock_ds1307_fields)

text \<open>
  Claim C4, amended. For every legal rate (0, 1, 4, 8, 32) \<open>square_wave\<close> succeeds and
  issues a single 1-byte write at register offset 7 whose byte has bit 0 set iff the rate
  is 4 or 32, bit 1 set iff the rate is 8 or 32, bit 4 set iff the rate is not 0, bit 7
  set iff the requested output level is greater than 0, and no other bit set; in
  particular rate 32 with output level 1 writes \<open>0x93\<close>, rate 0 with output level 1
  writes \<open>0x80\<close>, and rate 0 with output level 0 writes \<open>0x00\<close>.
\<close>

theorem square_wave_control_byte:
  "sqw \<in> {0, 1, 4, 8, 32} \<longrightarrow>
     (\<exists>reg. fst (square_wave self sqw out) = Inr () \<and>
        trace (self_i2c (snd (square_wave self sqw out))) =
          trace (self_i2c self) @ [WriteToMem (self_addr self) 7 [reg]] \<and>
        0 \<le> reg \<and> reg < 256 \<and>
        bit reg 0 = (sqw = 4 \<or> sqw = 32) \<and>
        bit reg 1 = (sqw = 8 \<or> sqw = 32) \<and>
        bit reg 4 = (sqw \<noteq> 0) \<and>
        bit reg 7 = (out > 0) \<and>
        \<not> bit reg 2 \<and> \<not> bit reg 3 \<and> \<not> bit reg 5 \<and> \<not> bit reg 6 \<and>
        (sqw = 32 \<and> out = 1 \<longrightarrow> reg = 0x93) \<and>
        (sqw = 0 \<and> out = 1 \<longrightarrow> reg = 0x80) \<and>
        (sqw = 0 \<and> out = 0 \<longrightarrow> reg = 0x00))"
  by (auto simp add: square_wave_ok writeto_mem_def)

theorem square_wave_control_byte_witness:
  "(32::int) \<in> {0, 1, 4, 8, 32} \<and>
   trace (self_i2c (snd (square_wave (mock_ds1307 [] 0 False) 32 1))) =
     [WriteToMem 0x68 7 [0x93]]"
  using square_wave_control_byte [of 32 "mock_ds1307 [] 0 False" 1]
  by (auto simp add: mock_ds1307_fields)

section \<open>Writing the date and time\<close>

lemma and_0x7F_eq_mod: "(v::int) AND 0x7F = v mod 128"
proof -
  have "v AND mask 7 = take_bit 7 v"
    by (simp only: take_bit_eq_mask)
  then show ?thesis
    by (simp add: take_bit_eq_mod mask_eq_exp_minus_1)
qed

lemma or_halt_bit:
  assumes "0 \<le> b" and "b < 128"
  shows "b OR 128 = b + (128::int)"
proof -
  have b: "take_bit 7 b = b"
    using assms by (simp add: take_bit_int_eq_self)
  have "take_bit 7 b AND 128 = 0"
    by (rule bit_eqI) (auto simp add: bit_and_iff bit_take_bit_iff bit_128_iff)
  then show ?thesis
    using b by (simp add: disjunctive_add_eq_or)
qed

lemma mod_128_byte: "(x::int) mod 128 < 256"
proof -
  have "x mod 128 < 128"
    by simp
  then show ?thesis
    by linarith
qed

lemma bytearray_7: "bytearray 7 = [0, 0, 0, 0, 0, 0, 0]"
  by (simp add: bytearray_def eval_nat_numeral)

lemma bytearray_setitem_7:
  "bytearray_setitem [a0, a1, a2, a3, a4, a5, a6] 0 v =
     (if 0 \<le> v \<and> v < 256 then Inr [v, a1, a2, a3, a4, a5, a6] else Inl byte_error)"
  "bytearray_setitem [a0, a1, a2, a3, a4, a5, a6] (Suc 0) v =
     (if 0 \<le> v \<and> v < 256 then Inr [a0, v, a2, a3, a4, a5, a6] else Inl byte_error)"
  "bytearray_setitem [a0, a1, a2, a3, a4, a5, a6] 2 v =
     (if 0 \<le> v \<and> v < 256 then Inr [a0, a1, v, a3, a4, a5, a6] else Inl byte_error)"
  "bytearray_setitem [a0, a1, a2, a3, a4, a5, a6] 3 v =
     (if 0 \<le> v \<and> v < 256 then Inr [a0, a1, a2, v, a4, a5, a6] else Inl byte_error)"
  "bytearray_setitem [a0, a1, a2, a3, a4, a5, a6] 4 v =
     (if 0 \<le> v \<and> v < 256 then Inr [a0, a1, a2, a3, v, a5, a6] else Inl byte_error)"
  "bytearray_setitem [a0, a1, a2, a3, a4, a5, a6] 5 v =
     (if 0 \<le> v \<and> v < 256 then Inr [a0, a1, a2, a3, a4, v, a6] else Inl byte_error)"
  "bytearray_setitem [a0, a1, a2, a3, a4, a5, a6] 6 v =
     (if 0 \<le> v \<and> v < 256 then Inr [a0, a1, a2, a3, a4, a5, v] else Inl byte_error)"
  by (simp_all add: bytearray_setitem_def eval_nat_numeral)

lemma datetime_setter_buf_eq:
  "datetime_setter_buf self (y, mo, d, h, mi, s, wd, yd) =
     (if (0 \<le> dec_to_bcd mi \<and> dec_to_bcd mi < 256) \<and>
         (0 \<le> dec_to_bcd h \<and> dec_to_bcd h < 256) \<and>
         (0 \<le> dec_to_bcd (wd + self_weekday_start self) \<and>
            dec_to_bcd (wd + self_weekday_start self) < 256) \<and>
         (0 \<le> dec_to_bcd d \<and> dec_to_bcd d < 256) \<and>
         (0 \<le> dec_to_bcd mo \<and> dec_to_bcd mo < 256) \<and>
         (0 \<le> dec_to_bcd (y - 2000) \<and> dec_to_bcd (y - 2000) < 256)
      then Inr [dec_to_bcd s mod 128 + (if self_halt self then 128 else 0),
                dec_to_bcd mi, dec_to_bcd h, dec_to_bcd (wd + self_weekday_start self),
                dec_to_bcd d, dec_to_bcd mo, dec_to_bcd (y - 2000)]
      else Inl byte_error)"
  by (simp add: datetime_setter_buf_def bytearray_7 bytearray_setitem_7 and_0x7F_eq_mod
      or_halt_bit mod_128_byte)

lemma dec_to_bcd_byte:
  assumes "0 \<le> v" and "v \<le> 99"
  shows "0 \<le> dec_to_bcd v" and "dec_to_bcd v < 256"
proof -
  have "0 \<le> v div 10" "v div 10 \<le> 9" "0 \<le> v mod 10" "v mod 10 < 10"
    using assms by simp_all
  then show "0 \<le> dec_to_bcd v" and "dec_to_bcd v < 256"
    by (simp_all add: dec_to_bcd_arith)
qed

lemma dec_to_bcd_below_128:
  assumes "0 \<le> v" and "v \<le> 79"
  shows "dec_to_bcd v mod 128 = dec_to_bcd v"
proof -
  have "0 \<le> v div 10" "v div 10 \<le> 7" "0 \<le> v mod 10" "v mod 10 < 10"
    using assms by simp_all
  then show ?thesis
    by (simp add: dec_to_bcd_arith)
qed

lemma bit_7_halt:
  assumes "0 \<le> m" and "m < 128"
  shows "bit (m + (if c then 128 else 0 :: int)) 7 = c"
proof -
  have "(m + 128) div 128 = 1" and "m div 128 = 0"
    using assms by simp_all
  then show ?thesis
    by (simp add: bit_iff_odd)
qed

lemma datetime_setter_buf_valid:
  assumes "2000 \<le> y" and "y \<le> 2099" and "0 \<le> mo" and "mo \<le> 99" and "0 \<le> d" and "d \<le> 99"
    and "0 \<le> h" and "h \<le> 99" and "0 \<le> mi" and "mi \<le> 99" and "0 \<le> s" and "s \<le> 79"
    and "0 \<le> wd + self_weekday_start self" and "wd + self_weekday_start self \<le> 99"
  shows "datetime_setter_buf self (y, mo, d, h, mi, s, wd, yd) =
     Inr [dec_to_bcd s + (if self_halt self then 128 else 0),
          dec_to_bcd mi, dec_to_bcd h, dec_to_bcd (wd + self_weekday_start self),
          dec_to_bcd d, dec_to_bcd mo, dec_to_bcd (y - 2000)]"
  using assms
  by (simp add: datetime_setter_buf_eq dec_to_bcd_byte dec_to_bcd_below_128)

lemma datetime_setter_cases:
  "datetime_setter self (y, mo, d, h, mi, s, wd, yd) = (Inl byte_error, self) \<or>
   datetime_setter self (y, mo, d, h, mi, s, wd, yd) =
     (Inr (),
      self\<lparr>self_i2c := writeto_mem (self_i2c self) (self_addr self) 0
        [dec_to_bcd s mod 128 + (if self_halt self then 128 else 0),
         dec_to_bcd mi, dec_to_bcd h, dec_to_bcd (wd + self_weekday_start self),
         dec_to_bcd d, dec_to_bcd mo, dec_to_bcd (y - 2000)]\<rparr>)"
  by (simp add: datetime_setter_def datetime_setter_buf_eq DATETIME_REG_def)

lemma datetime_setter_valid:
  assumes "2000 \<le> y" and "y \<le> 2099" and "0 \<le> mo" and "mo \<le> 99" and "0 \<le> d" and "d \<le> 99"
    and "0 \<le> h" and "h \<le> 99" and "0 \<le> mi" and "mi \<le> 99" and "0 \<le> s" and "s \<le> 79"
    and "0 \<le> wd + self_weekday_start self" and "wd + self_weekday_start self \<le> 99"
  shows "datetime_setter self (y, mo, d, h, mi, s, wd, yd) =
     (Inr (),
      self\<lparr>self_i2c := writeto_mem (self_i2c self) (self_addr self) 0
        [dec_to_bcd s + (if self_halt self then 128 else 0),
         dec_to_bcd mi, dec_to_bcd h, dec_to_bcd (wd + self_weekday_start self),
         dec_to_bcd d, dec_to_bcd mo, dec_to_bcd (y - 2000)]\<rparr>)"
  by (simp add: datetime_setter_def datetime_setter_buf_valid [OF assms] DATETIME_REG_def)

text \<open>
  Claim C6. Writing the datetime (2023, 5, 29, 20, 45, 59, 3, 149) with the cached halt
  flag false and weekday start 0 succeeds and issues exactly one bus write, at register
  offset 0, of the bytes \<open>[89, 69, 32, 3, 41, 5, 35]\<close>. The setter succeeds on every
  DateTime within the ranges of the data model (with a weekday start from 0 to 6), and
  whenever it succeeds it issues one 7-byte write at offset 0 in which bit 7 of the
  seconds byte equals the cached halt flag and the weekday byte is the BCD encoding of
  weekday plus weekday start.
\<close>

theorem datetime_setter_spec:
  "(\<not> self_halt self \<and> self_weekday_start self = 0 \<longrightarrow>
      fst (datetime_setter self (2023, 5, 29, 20, 45, 59, 3, 149)) = Inr () \<and>
      trace (self_i2c (snd (datetime_setter self (2023, 5, 29, 20, 45, 59, 3, 149)))) =
        trace (self_i2c self) @ [WriteToMem (self_addr self) 0 [89, 69, 32, 3, 41, 5, 35]]) \<and>
   (2000 \<le> y \<and> y \<le> 2099 \<and> 1 \<le> mo \<and> mo \<le> 12 \<and> 1 \<le> d \<and> d \<le> 31 \<and>
    0 \<le> h \<and> h \<le> 23 \<and> 0 \<le> mi \<and> mi \<le> 59 \<and> 0 \<le> s \<and> s \<le> 59 \<and>
    0 \<le> wd \<and> wd \<le> 6 \<and> 0 \<le> self_weekday_start self \<and> self_weekday_start self \<le> 6 \<longrightarrow>
      fst (datetime_setter self (y, mo, d, h, mi, s, wd, yd)) = Inr ()) \<and>
   (fst (datetime_setter self (y, mo, d, h, mi, s, wd, yd)) = Inr () \<longrightarrow>
      (\<exists>buf. length buf = 7 \<and>
         trace (self_i2c (snd (datetime_setter self (y, mo, d, h, mi, s, wd, yd)))) =
           trace (self_i2c self) @ [WriteToMem (self_addr self) 0 buf] \<and>
         bit (buf ! 0) 7 = self_halt self \<and>
         buf ! 3 = dec_to_bcd (wd + self_weekday_start self)))"
proof (intro conjI impI)
  assume a: "\<not> self_halt self \<and> self_weekday_start self = 0"
  have e: "datetime_setter self (2023, 5, 29, 20, 45, 59, 3, 149) =
     (Inr (), self\<lparr>self_i2c := writeto_mem (self_i2c self) (self_addr self) 0
        [89, 69, 32, 3, 41, 5, 35]\<rparr>)"
    using a by (simp add: datetime_setter_valid dec_to_bcd_arith)
  show "fst (datetime_setter self (2023, 5, 29, 20, 45, 59, 3, 149)) = Inr ()"
    by (simp add: e)
  show "trace (self_i2c (snd (datetime_setter self (2023, 5, 29, 20, 45, 59, 3, 149)))) =
        trace (self_i2c self) @ [WriteToMem (self_addr self) 0 [89, 69, 32, 3, 41, 5, 35]]"
    by (simp add: e writeto_mem_def)
next
  assume "2000 \<le> y \<and> y \<le> 2099 \<and> 1 \<le> mo \<and> mo \<le> 12 \<and> 1 \<le> d \<and> d \<le> 31 \<and>
    0 \<le> h \<and> h \<le> 23 \<and> 0 \<le> mi \<and> mi \<le> 59 \<and> 0 \<le> s \<and> s \<le> 59 \<and>
    0 \<le> wd \<and> wd \<le> 6 \<and> 0 \<le> self_weekday_start self \<and> self_weekday_start self \<le> 6"
  then show "fst (datetime_setter self (y, mo, d, h, mi, s, wd, yd)) = Inr ()"
    by (simp add: datetime_setter_valid)
next
  assume ok: "fst (datetime_setter self (y, mo, d, h, mi, s, wd, yd)) = Inr ()"
  let ?b0 = "dec_to_bcd s mod 128 + (if self_halt self then 128 else 0)"
  let ?buf = "[?b0, dec_to_bcd mi, dec_to_bcd h, dec_to_bcd (wd + self_weekday_start self),
               dec_to_bcd d, dec_to_bcd mo, dec_to_bcd (y - 2000)]"
  from ok datetime_setter_cases [of self y mo d h mi s wd yd]
  have e: "datetime_setter self (y, mo, d, h, mi, s, wd, yd) =
     (Inr (), self\<lparr>self_i2c := writeto_mem (self_i2c self) (self_addr self) 0 ?buf\<rparr>)"
    by auto
  have b7: "bit ?b0 7 = self_halt self"
    by (rule bit_7_halt) simp_all
  show "\<exists>buf. length buf = 7 \<and>
         trace (self_i2c (snd (datetime_setter self (y, mo, d, h, mi, s, wd, yd)))) =
           trace (self_i2c self) @ [WriteToMem (self_addr self) 0 buf] \<and>
         bit (buf ! 0) 7 = self_halt self \<and>
         buf ! 3 = dec_to_bcd (wd + self_weekday_start self)"
    using b7 by (intro exI [of _ ?buf]) (simp add: e writeto_mem_def)
qed

theorem datetime_setter_spec_witness:
  "(\<not> self_halt (mock_ds1307 [] 0 False) \<and> self_weekday_start (mock_ds1307 [] 0 False) = 0) \<and>
   ((2000::int) \<le> 2023 \<and> (2023::int) \<le> 2099 \<and> (1::int) \<le> 5 \<and> (5::int) \<le> 12 \<and>
    (1::int) \<le> 29 \<and> (29::int) \<le> 31 \<and> (0::int) \<le> 20 \<and> (20::int) \<le> 23 \<and>
    (0::int) \<le> 45 \<and> (45::int) \<le> 59 \<and> (0::int) \<le> 59 \<and> (59::int) \<le> 59 \<and>
    (0::int) \<le> 3 \<and> (3::int) \<le> 6 \<and> 0 \<le> self_weekday_start (mock_ds1307 [] 0 False) \<and>
    self_weekday_start (mock_ds1307 [] 0 False) \<le> 6) \<and>
   fst (datetime_setter (mock_ds1307 [] 0 False) (2023, 5, 29, 20, 45, 59, 3, 149)) = Inr () \<and>
   trace (self_i2c (snd (datetime_setter (mock_ds1307 [] 0 False)
       (2023, 5, 29, 20, 45, 59, 3, 149)))) =
     [WriteToMem 0x68 0 [89, 69, 32, 3, 41, 5, 35]]"
  using datetime_setter_spec [of "mock_ds1307 [] 0 False" 2023 5 29 20 45 59 3 149]
  by (simp add: mock_ds1307_fields)

section \<open>Reading back what was written\<close>

lemma uint_byte_of_int:
  assumes "0 \<le> v" and "v < 256"
  shows "uint (word_of_int v :: 8 word) = v"
  using assms by (simp add: uint_word_of_int)

lemma regs_writeto_mem_7:
  "regs (writeto_mem bus a 0 [b0, b1, b2, b3, b4, b5, b6]) 0 = word_of_int b0"
  "regs (writeto_mem bus a 0 [b0, b1, b2, b3, b4, b5, b6]) 1 = word_of_int b1"
  "regs (writeto_mem bus a 0 [b0, b1, b2, b3, b4, b5, b6]) 2 = word_of_int b2"
  "regs (writeto_mem bus a 0 [b0, b1, b2, b3, b4, b5, b6]) 3 = word_of_int b3"
  "regs (writeto_mem bus a 0 [b0, b1, b2, b3, b4, b5, b6]) 4 = word_of_int b4"
  "regs (writeto_mem bus a 0 [b0, b1, b2, b3, b4, b5, b6]) 5 = word_of_int b5"
  "regs (writeto_mem bus a 0 [b0, b1, b2, b3, b4, b5, b6]) 6 = word_of_int b6"
  by (simp_all add: writeto_mem_def)

lemma seconds_byte_decoded:
  assumes "0 \<le> s" and "s \<le> 59"
  shows "0 \<le> dec_to_bcd s + (if c then 128 else 0)"
    and "dec_to_bcd s + (if c then 128 else 0) < 256"
    and "(dec_to_bcd s + (if c then 128 else 0)) AND 0x7F = dec_to_bcd s"
proof -
  define q where "q = s div 10"
  define r where "r = s mod 10"
  have b: "0 \<le> q" "q \<le> 5" "0 \<le> r" "r < 10"
    using assms by (simp_all add: q_def r_def)
  have e: "dec_to_bcd s = q * 16 + r"
    by (simp add: dec_to_bcd_arith q_def r_def)
  show "0 \<le> dec_to_bcd s + (if c then 128 else 0)"
    and "dec_to_bcd s + (if c then 128 else 0) < 256"
    using b by (simp_all add: e)
  show "(dec_to_bcd s + (if c then 128 else 0)) AND 0x7F = dec_to_bcd s"
    using b by (simp add: e and_0x7F_eq_mod)
qed

text \<open>What the getter returns right after the setter, on the valid ranges of the
  data model: every field but the weekday is the one written; the weekday is decoded
  from the written byte less the weekday start.\<close>

lemma datetime_after_setter:
  assumes "2000 \<le> y" and "y \<le> 2099" and "1 \<le> mo" and "mo \<le> 12" and "1 \<le> d" and "d \<le> 31"
    and "0 \<le> h" and "h \<le> 23" and "0 \<le> mi" and "mi \<le> 59" and "0 \<le> s" and "s \<le> 59"
    and "0 \<le> wd" and "wd \<le> 6"
    and "0 \<le> self_weekday_start self" and "self_weekday_start self \<le> 6"
  shows "\<exists>yd'. day_of_year y mo d = Inr yd' \<and>
     fst (datetime (snd (datetime_setter self (y, mo, d, h, mi, s, wd, yd)))) =
       Inr (y, mo, d, h, mi, s,
            bcd_to_dec (dec_to_bcd (wd + self_weekday_start self) - self_weekday_start self),
            yd')"
proof -
  let ?ws = "self_weekday_start self"
  let ?b0 = "dec_to_bcd s + (if self_halt self then 128 else 0)"
  define self' where "self' = snd (datetime_setter self (y, mo, d, h, mi, s, wd, yd))"
  have "datetime_setter self (y, mo, d, h, mi, s, wd, yd) =
     (Inr (),
      self\<lparr>self_i2c := writeto_mem (self_i2c self) (self_addr self) 0
        [?b0, dec_to_bcd mi, dec_to_bcd h, dec_to_bcd (wd + ?ws),
         dec_to_bcd d, dec_to_bcd mo, dec_to_bcd (y - 2000)]\<rparr>)"
    using assms by (intro datetime_setter_valid) simp_all
  then have written: "self' =
      self\<lparr>self_i2c := writeto_mem (self_i2c self) (self_addr self) 0
        [?b0, dec_to_bcd mi, dec_to_bcd h, dec_to_bcd (wd + ?ws),
         dec_to_bcd d, dec_to_bcd mo, dec_to_bcd (y - 2000)]\<rparr>"
    by (simp add: self'_def)
  have r0: "regs (self_i2c self') 0 = word_of_int ?b0"
    by (simp add: written regs_writeto_mem_7)
  have "uint (word_of_int ?b0 :: 8 word) AND 0x7F = dec_to_bcd s"
    using seconds_byte_decoded [of s "self_halt self"] assms
    by (simp only: uint_byte_of_int)
  then have sec: "uint (regs (self_i2c self') 0) AND 0x7F = dec_to_bcd s"
    by (simp only: r0)
  have bytes:
    "uint (regs (self_i2c self') 1) = dec_to_bcd mi"
    "uint (regs (self_i2c self') 2) = dec_to_bcd h"
    "uint (regs (self_i2c self') 3) = dec_to_bcd (wd + ?ws)"
    "uint (regs (self_i2c self') 4) = dec_to_bcd d"
    "uint (regs (self_i2c self') 5) = dec_to_bcd mo"
    "uint (regs (self_i2c self') 6) = dec_to_bcd (y - 2000)"
    using assms by (simp_all add: written regs_writeto_mem_7 uint_byte_of_int dec_to_bcd_byte)
  have ws: "self_weekday_start self' = ?ws"
    by (simp add: written)
  have decoded:
    "bcd_to_dec (dec_to_bcd mi) = mi" "bcd_to_dec (dec_to_bcd h) = h"
    "bcd_to_dec (dec_to_bcd d) = d" "bcd_to_dec (dec_to_bcd mo) = mo"
    "bcd_to_dec (dec_to_bcd (y - 2000)) + 2000 = y" "bcd_to_dec (dec_to_bcd s) = s"
    using assms by (simp_all add: bcd_to_dec_dec_to_bcd)
  obtain yd' where yd': "day_of_year y mo d = Inr yd'"
    using day_of_year_valid_month [of mo y d] assms by simp
  have "fst (datetime self') =
       Inr (y, mo, d, h, mi, s, bcd_to_dec (dec_to_bcd (wd + ?ws) - ?ws), yd')"
    by (simp add: datetime_regs sec bytes ws decoded yd')
  then show ?thesis
    using yd' by (simp add: self'_def)
qed

lemma weekday_after_setter:
  assumes "0 \<le> wd" and "wd \<le> 6" and "0 \<le> ws" and "ws \<le> 6"
  shows "bcd_to_dec (dec_to_bcd (wd + ws) - ws) = (if wd + ws \<le> 9 then wd else wd + 6)"
proof (cases "wd + ws \<le> 9")
  case True
  then have "(wd + ws) div 10 = 0" and "(wd + ws) mod 10 = wd + ws"
    using assms by simp_all
  then show ?thesis
    using True assms by (simp add: dec_to_bcd_arith bcd_to_dec_arith)
next
  case False
  define x where "x = wd + ws - 10"
  have x: "0 \<le> x" "x \<le> 2" "wd + ws = x + 10"
    using False assms by (simp_all add: x_def)
  have "dec_to_bcd (wd + ws) = 16 + x"
    using x(1,2) by (simp add: dec_to_bcd_arith x(3))
  then have "dec_to_bcd (wd + ws) - ws = wd + 6"
    using x(3) by simp
  moreover have "bcd_to_dec (wd + 6) = wd + 6"
    using assms by (simp add: bcd_to_dec_arith)
  ultimately show ?thesis
    using False by simp
qed

lemma datetime_roundtrip_fields:
  assumes "2000 \<le> y" and "y \<le> 2099" and "1 \<le> mo" and "mo \<le> 12" and "1 \<le> d" and "d \<le> 31"
    and "0 \<le> h" and "h \<le> 23" and "0 \<le> mi" and "mi \<le> 59" and "0 \<le> s" and "s \<le> 59"
    and "0 \<le> wd" and "wd \<le> 6"
    and "0 \<le> self_weekday_start self" and "self_weekday_start self \<le> 6"
  shows "\<exists>wd' yd'.
     fst (datetime (snd (datetime_setter self (y, mo, d, h, mi, s, wd, yd)))) =
       Inr (y, mo, d, h, mi, s, wd', yd') \<and>
     wd' = (if wd + self_weekday_start self \<le> 9 then wd else wd + 6)"
  using datetime_after_setter [OF assms, of yd]
    weekday_after_setter [OF assms(13-16)]
  by auto

text \<open>
  Claim C1. Writing a DateTime and reading it back should return the year, month, day,
  hour, minute, second and weekday that were written. The first six do come back
  (\<open>datetime_roundtrip_fields\<close>); the weekday does not once weekday plus weekday start
  reaches 10: writing (2023, 5, 29, 20, 45, 59, 6, 149) with weekday start 4 succeeds,
  and the getter then returns weekday 12 instead of 6.
\<close>

theorem datetime_roundtrip_weekday_lost:
  "fst (datetime_setter (mock_ds1307 [] 4 False) (2023, 5, 29, 20, 45, 59, 6, 149)) = Inr () \<and>
   fst (datetime (snd (datetime_setter (mock_ds1307 [] 4 False)
       (2023, 5, 29, 20, 45, 59, 6, 149)))) =
     Inr (2023, 5, 29, 20, 45, 59, 12, 149)"
  by (simp add: datetime_setter_valid datetime_regs regs_writeto_mem_7 mock_ds1307_fields
      dec_to_bcd_arith bcd_to_dec_arith day_of_year_valid_month uint_word_of_int)

section \<open>The cached halt flag\<close>

lemma init_mock:
  "init I2C 0x68 (Some (mock_i2c bs)) = mock_ds1307 bs 0 False"
  by (simp add: init_def mock_ds1307_def)

lemma other_operations_keep_halt:
  "self_halt (snd (weekday_start_setter self w)) = self_halt self"
  "self_halt (snd (square_wave self sqw out)) = self_halt self"
  "self_halt (snd (datetime_item self k)) = self_halt self"
  "self_halt (snd (addr self)) = self_halt self"
  "self_halt (snd (weekday_start self)) = self_halt self"
  by (simp_all add: weekday_start_setter_def square_wave_def datetime_item_def addr_def
      weekday_start_def datetime_regs Let_def split: sum.split prod.split)

text \<open>
  Claim C10, as stated, fails in its last clause: a datetime operation does not update
  the cached halt flag. On a freshly constructed driver whose chip holds \<open>0xD9\<close> in
  the seconds register (bit 7 set), reading the datetime succeeds and writing a datetime
  succeeds, and after either the halt getter still returns false.
\<close>

theorem datetime_leaves_halt_cache_counterexample:
  "bit (uint (regs (mock_i2c [0xD9, 69, 32, 3, 41, 5, 35]) 0)) 7 \<and>
   fst (datetime (init (\<lambda>n. mock_i2c []) 0x68 (Some (mock_i2c [0xD9, 69, 32, 3, 41, 5, 35])))) =
     Inr (2023, 5, 29, 20, 45, 59, 3, 149) \<and>
   fst (halt (snd (datetime
     (init (\<lambda>n. mock_i2c []) 0x68 (Some (mock_i2c [0xD9, 69, 32, 3, 41, 5, 35])))))) = False \<and>
   fst (datetime_setter (init (\<lambda>n. mock_i2c []) 0x68 (Some (mock_i2c [0xD9, 69, 32, 3, 41, 5, 35])))
     (2023, 5, 29, 20, 45, 59, 3, 149)) = Inr () \<and>
   fst (halt (snd (datetime_setter
     (init (\<lambda>n. mock_i2c []) 0x68 (Some (mock_i2c [0xD9, 69, 32, 3, 41, 5, 35])))
     (2023, 5, 29, 20, 45, 59, 3, 149)))) = False"
proof -
  have "bit (uint (regs (mock_i2c [0xD9, 69, 32, 3, 41, 5, 35]) 0)) 7"
    by (simp add: mock_i2c_def)
  moreover have "fst (datetime (mock_ds1307 [0xD9, 69, 32, 3, 41, 5, 35] 0 False)) =
     Inr (2023, 5, 29, 20, 45, 59, 3, 149)"
    by (simp add: datetime_regs regs_mock_7 mock_ds1307_fields bcd_to_dec_arith
        day_of_year_valid_month)
  moreover have "fst (datetime_setter (mock_ds1307 [0xD9, 69, 32, 3, 41, 5, 35] 0 False)
     (2023, 5, 29, 20, 45, 59, 3, 149)) = Inr ()"
    by (simp add: datetime_setter_valid mock_ds1307_fields)
  ultimately show ?thesis
    by (simp add: init_mock halt_def datetime_keeps_flags datetime_setter_keeps_flags
        mock_ds1307_fields)
qed

text \<open>
  Claim C10, amended. Reading the halt flag issues no bus transaction and changes
  nothing: it returns the cached flag and leaves the driver, its bus trace included, as
  it was. The constructor sets the cache to false, so after construction the getter
  returns false whatever bit 7 of the chip's seconds register is. Only a halt write
  updates the cache, to the value requested: reading or writing the datetime, the
  projections, setting the weekday start and \<open>square_wave\<close> all leave it as it was, so
  after construction followed by a datetime read or write the getter still returns
  false.
\<close>

theorem halt_cache_set_by_halt_write_only:
  "snd (halt self) = self \<and>
   fst (halt self) = self_halt self \<and>
   trace (self_i2c (snd (halt self))) = trace (self_i2c self) \<and>
   fst (halt (init I2C a i2c)) = False \<and>
   bit (uint (regs (mock_i2c [0xD9]) 0)) 7 \<and>
   fst (halt (init I2C 0x68 (Some (mock_i2c [0xD9])))) = False \<and>
   fst (halt (snd (halt_setter self v))) = v \<and>
   fst (halt (snd (datetime self))) = fst (halt self) \<and>
   fst (halt (snd (datetime_setter self dt))) = fst (halt self) \<and>
   fst (halt (snd (datetime_item self k))) = fst (halt self) \<and>
   fst (halt (snd (weekday_start_setter self w))) = fst (halt self) \<and>
   fst (halt (snd (square_wave self sqw out))) = fst (halt self) \<and>
   fst (halt (snd (datetime (init I2C a i2c)))) = False \<and>
   fst (halt (snd (datetime_setter (init I2C a i2c) dt))) = False"
  by (simp add: halt_def init_def mock_i2c_def halt_setter_regs datetime_keeps_flags
      datetime_setter_keeps_flags other_operations_keep_halt)

theorem halt_cache_set_by_halt_write_only_witness:
  "fst (halt (snd (datetime (mock_ds1307 [0xD9, 69, 32, 3, 41, 5, 35] 0 False)))) = False \<and>
   fst (halt (snd (halt_setter (mock_ds1307 [0xD9, 69, 32, 3, 41, 5, 35] 0 False) True))) = True"
  using halt_cache_set_by_halt_write_only
    [of "mock_ds1307 [0xD9, 69, 32, 3, 41, 5, 35] 0 False" _ _ _ True]
  by (simp add: halt_def mock_ds1307_fields)

end
